theory Spec2Isabelle
  imports Complex_Main "HOL-Library.Word"
begin

unbundle bit_operations_syntax

section \<open>JavaScript values\<close>

text \<open>
  A JavaScript string is a sequence of UTF-16 code units. Literals of the source are
  written \<open>js ''...''\<close>. Counts, line numbers and row ids are integers; scores are
  modelled in exact real arithmetic.
\<close>

type_synonym jschar = "16 word"
type_synonym jsstring = "jschar list"

definition js :: "string \<Rightarrow> jsstring" where
  "js s = map of_char s"

text \<open>The character class \<^verbatim>\<open>\s\<close> of a JavaScript regular expression (also what \<^verbatim>\<open>trim\<close> strips).\<close>

definition isWhiteSpace :: "jschar \<Rightarrow> bool" where
  "isWhiteSpace c =
     (c \<in> set [0x9, 0xA, 0xB, 0xC, 0xD, 0x20, 0xA0, 0x1680, 0x2028, 0x2029,
                0x202F, 0x205F, 0x3000, 0xFEFF]
      \<or> (0x2000 \<le> c \<and> c \<le> 0x200A))"

text \<open>
  \<^verbatim>\<open>s.split(/\s+/)\<close>: the pieces between maximal runs of white space, empty pieces at
  the ends included. The flag says that the scan is inside a separator run.
\<close>

fun split_ws :: "bool \<Rightarrow> jsstring \<Rightarrow> jsstring \<Rightarrow> jsstring list" where
  "split_ws insep cur [] = [cur]"
| "split_ws insep cur (c # cs) =
     (if isWhiteSpace c
      then (if insep then split_ws True cur cs else cur # split_ws True [] cs)
      else split_ws False (cur @ [c]) cs)"

definition splitWhitespace :: "jsstring \<Rightarrow> jsstring list" where
  "splitWhitespace s = split_ws False [] s"

text \<open>
  Values that \<^verbatim>\<open>JSON.stringify\<close> meets in a chunk's context: strings, booleans,
  \<^verbatim>\<open>undefined\<close>, \<^verbatim>\<open>null\<close>, arrays and objects. An object lists its properties in
  enumeration order (insertion order: context keys are element names, never array indices).
\<close>

datatype json =
    JUndefined
  | JNull
  | JBool bool
  | JString jsstring
  | JArray "json list"
  | JObject "(jsstring \<times> json) list"

section \<open>Stored chunks\<close>

type_synonym byte = "8 word"

text \<open>
  \<^verbatim>\<open>interface ChunkMetadata\<close> and \<^verbatim>\<open>interface ChunkRecord extends ChunkMetadata\<close>.
  The optional \<^verbatim>\<open>sequenceKey\<close> and \<^verbatim>\<open>referencedSequences\<close> are \<open>None\<close> when
  undefined; an undefined \<^verbatim>\<open>isSequenceDefinition\<close> is \<open>False\<close>. The embedding of a
  record is the byte content of its \<^verbatim>\<open>Buffer\<close>.
\<close>

record ChunkMetadata =
  filePath :: jsstring
  fileHash :: jsstring
  resourceName :: jsstring
  resourceType :: jsstring
  chunkType :: jsstring
  chunkIndex :: int
  startLine :: int
  endLine :: int
  parentChunkId :: "nat option"
  timestamp :: int
  contentHash :: jsstring
  semanticType :: jsstring
  semanticIntent :: jsstring
  context' :: json
  sequenceKey :: "jsstring option"
  isSequenceDefinition :: bool
  referencedSequences :: "jsstring list option"

record ChunkRecord = ChunkMetadata +
  id' :: nat
  embedding :: "byte list"

section \<open>Search engine\<close>

definition DEFAULT_TOP_K :: int where "DEFAULT_TOP_K = 10"
definition MAX_TOP_K :: int where "MAX_TOP_K = 50"
definition MMR_LAMBDA :: real where "MMR_LAMBDA = 0.7"
definition OVERLAP_THRESHOLD :: real where "OVERLAP_THRESHOLD = 0.5"

subsection \<open>Adaptive K\<close>

text \<open>\<^verbatim>\<open>query.split(/\s+/).filter(Boolean)\<close>: the non-empty pieces.\<close>

definition queryWords :: "jsstring \<Rightarrow> jsstring list" where
  "queryWords query = filter (\<lambda>w. w \<noteq> []) (splitWhitespace query)"

definition adaptiveTopK :: "jsstring \<Rightarrow> int \<Rightarrow> int" where
  "adaptiveTopK query requestedK =
     (if length (queryWords query) \<le> 2 then min requestedK 8
      else if length (queryWords query) \<le> 5 then requestedK
      else min (requestedK + 5) MAX_TOP_K)"

text \<open>
  The first lines of the execute function: \<^verbatim>\<open>topK = Math.min(args.top_k ?? DEFAULT_TOP_K,
  MAX_TOP_K)\<close> and, further down, \<^verbatim>\<open>effectiveK = adaptiveTopK(query, topK)\<close>.
\<close>

definition topK_of :: "int option \<Rightarrow> int" where
  "topK_of top_k = min (case top_k of None \<Rightarrow> DEFAULT_TOP_K | Some t \<Rightarrow> t) MAX_TOP_K"

definition effectiveK :: "jsstring \<Rightarrow> int option \<Rightarrow> int" where
  "effectiveK query top_k = adaptiveTopK query (topK_of top_k)"

subsection \<open>Scored chunks\<close>

record ScoredChunk =
  chunk :: ChunkRecord
  semanticScore :: real
  bm25Score :: real
  hybridScore :: real

subsection \<open>Overlap deduplication\<close>

text \<open>The test of the inner loop for one kept result, after the file-path check.\<close>

definition overlapLines :: "ScoredChunk \<Rightarrow> ScoredChunk \<Rightarrow> int" where
  "overlapLines candidate existing =
     (let overlapStart = max (startLine (chunk candidate)) (startLine (chunk existing));
          overlapEnd = min (endLine (chunk candidate)) (endLine (chunk existing))
      in max 0 (overlapEnd - overlapStart + 1))"

definition minSpan :: "ScoredChunk \<Rightarrow> ScoredChunk \<Rightarrow> int" where
  "minSpan candidate existing =
     (let candidateSpan = endLine (chunk candidate) - startLine (chunk candidate) + 1;
          existingSpan = endLine (chunk existing) - startLine (chunk existing) + 1
      in min candidateSpan existingSpan)"

definition overlapsSignificantly :: "ScoredChunk \<Rightarrow> ScoredChunk \<Rightarrow> bool" where
  "overlapsSignificantly candidate existing =
     (minSpan candidate existing > 0
      \<and> real_of_int (overlapLines candidate existing) / real_of_int (minSpan candidate existing)
          > OVERLAP_THRESHOLD)"

text \<open>The inner loop: \<^verbatim>\<open>continue\<close> on another file, \<^verbatim>\<open>break\<close> at the first hit.\<close>

fun dominated :: "ScoredChunk \<Rightarrow> ScoredChunk list \<Rightarrow> bool" where
  "dominated candidate [] = False"
| "dominated candidate (existing # kept) =
     (if filePath (chunk candidate) \<noteq> filePath (chunk existing) then dominated candidate kept
      else if overlapsSignificantly candidate existing then True
      else dominated candidate kept)"

fun dedup_loop :: "ScoredChunk list \<Rightarrow> ScoredChunk list \<Rightarrow> ScoredChunk list" where
  "dedup_loop kept [] = kept"
| "dedup_loop kept (candidate # results) =
     (if dominated candidate kept then dedup_loop kept results
      else dedup_loop (kept @ [candidate]) results)"

definition deduplicateOverlapping :: "ScoredChunk list \<Rightarrow> ScoredChunk list" where
  "deduplicateOverlapping results = dedup_loop [] results"

subsection \<open>Embedding bytes\<close>

text \<open>
  A \<^verbatim>\<open>Float32Array\<close> is a list of IEEE-754 single-precision bit patterns. Its
  \<^verbatim>\<open>.buffer\<close> holds each element as four bytes, least significant first (every platform
  the extension runs on is little-endian).
\<close>

type_synonym float32 = "32 word"

definition float32_bytes :: "float32 \<Rightarrow> byte list" where
  "float32_bytes w = [ucast w, ucast (drop_bit 8 w), ucast (drop_bit 16 w), ucast (drop_bit 24 w)]"

definition float32_of_bytes :: "byte \<Rightarrow> byte \<Rightarrow> byte \<Rightarrow> byte \<Rightarrow> float32" where
  "float32_of_bytes b0 b1 b2 b3 =
     ucast b0 OR push_bit 8 (ucast b1) OR push_bit 16 (ucast b2) OR push_bit 24 (ucast b3)"

text \<open>\<^verbatim>\<open>embedding.buffer\<close> of a \<^verbatim>\<open>Float32Array\<close> that owns its buffer.\<close>

definition float32ArrayBuffer :: "float32 list \<Rightarrow> byte list" where
  "float32ArrayBuffer v = concat (map float32_bytes v)"

text \<open>
  \<^verbatim>\<open>new Float32Array(arrayBuffer)\<close>: a view of the whole buffer; a byte length that is
  not a multiple of four throws a \<^verbatim>\<open>RangeError\<close>.
\<close>

datatype js_error = RangeError | SqliteConstraint | EmbedError

fun float32_elements :: "byte list \<Rightarrow> float32 list" where
  "float32_elements (b0 # b1 # b2 # b3 # bs) = float32_of_bytes b0 b1 b2 b3 # float32_elements bs"
| "float32_elements bs = []"

definition newFloat32Array :: "byte list \<Rightarrow> js_error + float32 list" where
  "newFloat32Array buf =
     (if length buf mod 4 \<noteq> 0 then Inl RangeError else Inr (float32_elements buf))"

text \<open>
  The number a bit pattern stands for. Patterns with exponent 255 (infinities and NaN) are
  read like the others: a normalised embedding holds none.
\<close>

definition float32_value :: "float32 \<Rightarrow> real" where
  "float32_value w =
     (let sgn = (if bit w 31 then - 1 else 1);
          e = unat (take_bit 8 (drop_bit 23 w));
          m = unat (take_bit 23 w)
      in if e = 0 then sgn * real m * 2 powr (- 149)
         else sgn * (real m + 2 ^ 23) * 2 powr (real e - 150))"

subsection \<open>Cosine similarity\<close>

text \<open>
  The loop runs over the indices of \<open>a\<close>. Reading \<open>b\<close> past its end gives
  \<^verbatim>\<open>undefined\<close> and the result is \<^verbatim>\<open>NaN\<close>, here \<open>None\<close>.
\<close>

fun cosine_sums :: "float32 list \<Rightarrow> float32 list \<Rightarrow> real \<times> real \<times> real \<Rightarrow> (real \<times> real \<times> real) option" where
  "cosine_sums [] b acc = Some acc"
| "cosine_sums (x # a) [] acc = None"
| "cosine_sums (x # a) (y # b) (dot, normA, normB) =
     cosine_sums a b (dot + float32_value x * float32_value y,
                      normA + float32_value x * float32_value x,
                      normB + float32_value y * float32_value y)"

definition cosineSimilarity :: "float32 list \<Rightarrow> float32 list \<Rightarrow> real option" where
  "cosineSimilarity a b =
     (case cosine_sums a b (0, 0, 0) of
        None \<Rightarrow> None
      | Some (dot, normA, normB) \<Rightarrow>
          (let denom = sqrt normA * sqrt normB in Some (if denom = 0 then 0 else dot / denom)))"

subsection \<open>BM25 normalisation\<close>






subsection \<open>MMR reranking\<close>

text \<open>The loop over the selected chunks that computes \<^verbatim>\<open>maxSim\<close>.\<close>

fun maxSim_loop :: "ScoredChunk \<Rightarrow> ScoredChunk list \<Rightarrow> real \<Rightarrow> js_error + real" where
  "maxSim_loop candidate [] maxSim = Inr maxSim"
| "maxSim_loop candidate (sel # rest) maxSim =
     (case newFloat32Array (embedding (chunk sel)) of
        Inl e \<Rightarrow> Inl e
      | Inr selEmb \<Rightarrow>
          (case newFloat32Array (embedding (chunk candidate)) of
             Inl e \<Rightarrow> Inl e
           | Inr candEmb \<Rightarrow>
               maxSim_loop candidate rest
                 (case cosineSimilarity selEmb candEmb of
                    None \<Rightarrow> maxSim
                  | Some sim \<Rightarrow> if sim > maxSim then sim else maxSim)))"

text \<open>
  The loop over \<^verbatim>\<open>remaining\<close>. The best score starts at \<^verbatim>\<open>-Infinity\<close> (\<open>None\<close>) and the
  best index at \<open>-1\<close> (\<open>None\<close>).
\<close>

fun pick_best :: "ScoredChunk list \<Rightarrow> real \<Rightarrow> ScoredChunk list \<Rightarrow> nat list
    \<Rightarrow> nat option \<times> real option \<Rightarrow> js_error + nat option" where
  "pick_best candidates lambda selected [] (bestIdx, bestMmrScore) = Inr bestIdx"
| "pick_best candidates lambda selected (idx # rest) (bestIdx, bestMmrScore) =
     (case maxSim_loop (candidates ! idx) selected 0 of
        Inl e \<Rightarrow> Inl e
      | Inr maxSim \<Rightarrow>
          (let mmrScore = lambda * hybridScore (candidates ! idx) - (1 - lambda) * maxSim
           in if (case bestMmrScore of None \<Rightarrow> True | Some b \<Rightarrow> mmrScore > b)
              then pick_best candidates lambda selected rest (Some idx, Some mmrScore)
              else pick_best candidates lambda selected rest (bestIdx, bestMmrScore)))"

text \<open>The outer loop, by the number of steps still allowed.\<close>

fun mmr_loop :: "ScoredChunk list \<Rightarrow> real \<Rightarrow> nat \<Rightarrow> ScoredChunk list \<Rightarrow> nat list
    \<Rightarrow> js_error + ScoredChunk list" where
  "mmr_loop candidates lambda 0 selected remaining = Inr selected"
| "mmr_loop candidates lambda (Suc n) selected remaining =
     (if remaining = [] then Inr selected
      else (case pick_best candidates lambda selected remaining (None, None) of
              Inl e \<Rightarrow> Inl e
            | Inr None \<Rightarrow> mmr_loop candidates lambda n selected remaining
            | Inr (Some bestIdx) \<Rightarrow>
                mmr_loop candidates lambda n (selected @ [candidates ! bestIdx])
                  (removeAll bestIdx remaining)))"

definition mmrRerank :: "ScoredChunk list \<Rightarrow> float32 list \<Rightarrow> int \<Rightarrow> real
    \<Rightarrow> js_error + ScoredChunk list" where
  "mmrRerank candidates queryEmbedding k lambda =
     (if int (length candidates) \<le> k then Inr candidates
      else mmr_loop candidates lambda (nat k) [] [0..<length candidates])"

text \<open>Two results conflict when they are of one file and their ranges overlap significantly.\<close>

definition conflicts :: "ScoredChunk \<Rightarrow> ScoredChunk \<Rightarrow> bool" where
  "conflicts c e = (filePath (chunk c) = filePath (chunk e) \<and> overlapsSignificantly c e)"

subsection \<open>Sample values\<close>

definition sampleChunk :: "jsstring \<Rightarrow> nat \<Rightarrow> int \<Rightarrow> int \<Rightarrow> ChunkRecord" where
  "sampleChunk path n s e =
     \<lparr> filePath = path, fileHash = js ''h'', resourceName = js ''r'', resourceType = js ''api'',
       chunkType = js ''log'', chunkIndex = int n, startLine = s, endLine = e,
       parentChunkId = None, timestamp = 0, contentHash = js ''c'', semanticType = js ''mediator'',
       semanticIntent = js ''logging'', context' = JObject [], sequenceKey = None,
       isSequenceDefinition = False, referencedSequences = None, id' = n, embedding = [] \<rparr>"

definition sampleScored :: "jsstring \<Rightarrow> nat \<Rightarrow> int \<Rightarrow> int \<Rightarrow> real \<Rightarrow> ScoredChunk" where
  "sampleScored path n s e score =
     \<lparr> chunk = sampleChunk path n s e, semanticScore = score, bm25Score = 0, hybridScore = score \<rparr>"

text \<open>
  A scored chunk with an embedding: the hybrid score is fused from the two part scores as
  the search does it.
\<close>

definition sampleEmbedded ::
    "jsstring \<Rightarrow> nat \<Rightarrow> int \<Rightarrow> int \<Rightarrow> real \<Rightarrow> real \<Rightarrow> float32 list \<Rightarrow> ScoredChunk" where
  "sampleEmbedded path n s e sem bm v =
     \<lparr> chunk = (sampleChunk path n s e)\<lparr> embedding := float32ArrayBuffer v \<rparr>,
       semanticScore = sem, bm25Score = bm, hybridScore = 0.85 * sem + 0.15 * bm \<rparr>"

section \<open>JSON.stringify\<close>

text \<open>
  \<^verbatim>\<open>QuoteJSONString\<close> of the language standard: the two-character escapes, \<^verbatim>\<open>\uXXXX\<close>
  (lower-case digits) for the other control characters and for a surrogate without its
  partner, and every other code unit as it is.
\<close>

definition hexDigit :: "nat \<Rightarrow> jschar" where
  "hexDigit n = (if n < 10 then of_nat (48 + n) else of_nat (87 + n))"

definition unicodeEscape :: "jschar \<Rightarrow> jsstring" where
  "unicodeEscape c =
     [0x5C, 0x75, hexDigit (unat c div 4096), hexDigit (unat c div 256 mod 16),
      hexDigit (unat c div 16 mod 16), hexDigit (unat c mod 16)]"

definition isHighSurrogate :: "jschar \<Rightarrow> bool" where
  "isHighSurrogate c = (0xD800 \<le> c \<and> c \<le> 0xDBFF)"

definition isLowSurrogate :: "jschar \<Rightarrow> bool" where
  "isLowSurrogate c = (0xDC00 \<le> c \<and> c \<le> 0xDFFF)"

definition quoteUnit :: "jschar \<Rightarrow> jsstring" where
  "quoteUnit c =
     (if c = 0x08 then [0x5C, 0x62]
      else if c = 0x09 then [0x5C, 0x74]
      else if c = 0x0A then [0x5C, 0x6E]
      else if c = 0x0C then [0x5C, 0x66]
      else if c = 0x0D then [0x5C, 0x72]
      else if c = 0x22 then [0x5C, 0x22]
      else if c = 0x5C then [0x5C, 0x5C]
      else if c < 0x20 \<or> isHighSurrogate c \<or> isLowSurrogate c then unicodeEscape c
      else [c])"

fun quoteUnits :: "jsstring \<Rightarrow> jsstring" where
  "quoteUnits [] = []"
| "quoteUnits [c] = quoteUnit c"
| "quoteUnits (c # d # cs) =
     (if isHighSurrogate c \<and> isLowSurrogate d then c # d # quoteUnits cs
      else quoteUnit c @ quoteUnits (d # cs))"

definition QuoteJSONString :: "jsstring \<Rightarrow> jsstring" where
  "QuoteJSONString s = [0x22] @ quoteUnits s @ [0x22]"

fun joinWith :: "jsstring \<Rightarrow> jsstring list \<Rightarrow> jsstring" where
  "joinWith sep [] = []"
| "joinWith sep [x] = x"
| "joinWith sep (x # y # ys) = x @ sep @ joinWith sep (y # ys)"

text \<open>
  \<^verbatim>\<open>JSON.stringify(value)\<close> without indentation: \<open>None\<close> is the result \<^verbatim>\<open>undefined\<close>.
  An undefined array element is written \<^verbatim>\<open>null\<close>; a property whose value is undefined
  is left out. Properties are written in the order the object enumerates them.
\<close>

fun stringify :: "json \<Rightarrow> jsstring option"
  and stringify_elements :: "json list \<Rightarrow> jsstring list"
  and stringify_properties :: "(jsstring \<times> json) list \<Rightarrow> jsstring list" where
  "stringify JUndefined = None"
| "stringify JNull = Some (js ''null'')"
| "stringify (JBool b) = Some (if b then js ''true'' else js ''false'')"
| "stringify (JString s) = Some (QuoteJSONString s)"
| "stringify (JArray xs) = Some (js ''['' @ joinWith (js '','') (stringify_elements xs) @ js '']'')"
| "stringify (JObject ps) = Some (js ''{'' @ joinWith (js '','') (stringify_properties ps) @ js ''}'')"
| "stringify_elements [] = []"
| "stringify_elements (x # xs) =
     (case stringify x of None \<Rightarrow> js ''null'' | Some s \<Rightarrow> s) # stringify_elements xs"
| "stringify_properties [] = []"
| "stringify_properties ((k, v) # ps) =
     (case stringify v of
        None \<Rightarrow> stringify_properties ps
      | Some s \<Rightarrow> (QuoteJSONString k @ js '':'' @ s) # stringify_properties ps)"


definition stringifyStrings :: "jsstring list \<Rightarrow> jsstring" where
  "stringifyStrings xs = js ''['' @ joinWith (js '','') (map QuoteJSONString xs) @ js '']''"

section \<open>UTF-8 and SHA-256\<close>

text \<open>
  What \<^verbatim>\<open>hash.update(string)\<close> feeds to the digest: the UTF-8 encoding, a surrogate
  pair as one four-byte sequence and a surrogate without partner as U+FFFD.
\<close>

definition utf8_unit :: "jschar \<Rightarrow> byte list" where
  "utf8_unit c =
     (if unat c < 0x80 then [of_nat (unat c)]
      else if unat c < 0x800 then [of_nat (0xC0 + unat c div 64), of_nat (0x80 + unat c mod 64)]
      else if isHighSurrogate c \<or> isLowSurrogate c then [0xEF, 0xBF, 0xBD]
      else [of_nat (0xE0 + unat c div 4096), of_nat (0x80 + unat c div 64 mod 64),
            of_nat (0x80 + unat c mod 64)])"

definition codePoint :: "jschar \<Rightarrow> jschar \<Rightarrow> nat" where
  "codePoint hi lo = 0x10000 + (unat hi - 0xD800) * 1024 + (unat lo - 0xDC00)"

definition utf8_pair :: "jschar \<Rightarrow> jschar \<Rightarrow> byte list" where
  "utf8_pair hi lo =
     [of_nat (0xF0 + codePoint hi lo div 262144), of_nat (0x80 + codePoint hi lo div 4096 mod 64),
      of_nat (0x80 + codePoint hi lo div 64 mod 64), of_nat (0x80 + codePoint hi lo mod 64)]"

fun utf8_encode :: "jsstring \<Rightarrow> byte list" where
  "utf8_encode [] = []"
| "utf8_encode [c] = utf8_unit c"
| "utf8_encode (c # d # cs) =
     (if isHighSurrogate c \<and> isLowSurrogate d then utf8_pair c d @ utf8_encode cs
      else utf8_unit c @ utf8_encode (d # cs))"

text \<open>
  SHA-256 (FIPS 180-4) on 32-bit words held as natural numbers, with the reduction modulo
  \<open>2^32\<close> written out.
\<close>

definition add32 :: "nat \<Rightarrow> nat \<Rightarrow> nat" where
  "add32 x y = (x + y) mod 4294967296"

definition rotr :: "nat \<Rightarrow> nat \<Rightarrow> nat" where
  "rotr n x = x div 2 ^ n + (x mod 2 ^ n) * 2 ^ (32 - n)"

definition shr :: "nat \<Rightarrow> nat \<Rightarrow> nat" where
  "shr n x = x div 2 ^ n"

definition Ch :: "nat \<Rightarrow> nat \<Rightarrow> nat \<Rightarrow> nat" where
  "Ch x y z = (x AND y) XOR ((x XOR 4294967295) AND z)"

definition Maj :: "nat \<Rightarrow> nat \<Rightarrow> nat \<Rightarrow> nat" where
  "Maj x y z = (x AND y) XOR (x AND z) XOR (y AND z)"

definition bsig0 :: "nat \<Rightarrow> nat" where
  "bsig0 x = rotr 2 x XOR rotr 13 x XOR rotr 22 x"

definition bsig1 :: "nat \<Rightarrow> nat" where
  "bsig1 x = rotr 6 x XOR rotr 11 x XOR rotr 25 x"

definition ssig0 :: "nat \<Rightarrow> nat" where
  "ssig0 x = rotr 7 x XOR rotr 18 x XOR shr 3 x"

definition ssig1 :: "nat \<Rightarrow> nat" where
  "ssig1 x = rotr 17 x XOR rotr 19 x XOR shr 10 x"

definition K256 :: "nat list" where
  "K256 = [
   0x428A2F98, 0x71374491, 0xB5C0FBCF, 0xE9B5DBA5, 0x3956C25B, 0x59F111F1, 0x923F82A4, 0xAB1C5ED5,
   0xD807AA98, 0x12835B01, 0x243185BE, 0x550C7DC3, 0x72BE5D74, 0x80DEB1FE, 0x9BDC06A7, 0xC19BF174,
   0xE49B69C1, 0xEFBE4786, 0x0FC19DC6, 0x240CA1CC, 0x2DE92C6F, 0x4A7484AA, 0x5CB0A9DC, 0x76F988DA,
   0x983E5152, 0xA831C66D, 0xB00327C8, 0xBF597FC7, 0xC6E00BF3, 0xD5A79147, 0x06CA6351, 0x14292967,
   0x27B70A85, 0x2E1B2138, 0x4D2C6DFC, 0x53380D13, 0x650A7354, 0x766A0ABB, 0x81C2C92E, 0x92722C85,
   0xA2BFE8A1, 0xA81A664B, 0xC24B8B70, 0xC76C51A3, 0xD192E819, 0xD6990624, 0xF40E3585, 0x106AA070,
   0x19A4C116, 0x1E376C08, 0x2748774C, 0x34B0BCB5, 0x391C0CB3, 0x4ED8AA4A, 0x5B9CCA4F, 0x682E6FF3,
   0x748F82EE, 0x78A5636F, 0x84C87814, 0x8CC70208, 0x90BEFFFA, 0xA4506CEB, 0xBEF9A3F7, 0xC67178F2]"

type_synonym sha_state = "nat \<times> nat \<times> nat \<times> nat \<times> nat \<times> nat \<times> nat \<times> nat"

definition H256 :: sha_state where
  "H256 = (0x6A09E667, 0xBB67AE85, 0x3C6EF372, 0xA54FF53A,
           0x510E527F, 0x9B05688C, 0x1F83D9AB, 0x5BE0CD19)"

text \<open>The message schedule is built newest word first: \<open>ws ! 1\<close> is \<open>W (t - 2)\<close>.\<close>

definition schedule_step :: "nat \<Rightarrow> nat list \<Rightarrow> nat list" where
  "schedule_step t ws =
     add32 (add32 (add32 (ssig1 (ws ! 1)) (ws ! 6)) (ssig0 (ws ! 14))) (ws ! 15) # ws"

definition schedule :: "nat list \<Rightarrow> nat list" where
  "schedule ws = rev (fold schedule_step [16..<64] (rev ws))"

fun sha_round :: "nat \<times> nat \<Rightarrow> sha_state \<Rightarrow> sha_state" where
  "sha_round (k, w) (a, b, c, d, e, f, g, h) =
     (add32 (add32 (add32 (add32 (add32 h (bsig1 e)) (Ch e f g)) k) w) (add32 (bsig0 a) (Maj a b c)),
      a, b, c,
      add32 d (add32 (add32 (add32 (add32 h (bsig1 e)) (Ch e f g)) k) w),
      e, f, g)"

fun add_state :: "sha_state \<Rightarrow> sha_state \<Rightarrow> sha_state" where
  "add_state (a, b, c, d, e, f, g, h) (a', b', c', d', e', f', g', h') =
     (add32 a a', add32 b b', add32 c c', add32 d d',
      add32 e e', add32 f f', add32 g g', add32 h h')"

definition be32 :: "byte \<Rightarrow> byte \<Rightarrow> byte \<Rightarrow> byte \<Rightarrow> nat" where
  "be32 b0 b1 b2 b3 = unat b0 * 16777216 + unat b1 * 65536 + unat b2 * 256 + unat b3"

fun words_of :: "byte list \<Rightarrow> nat list" where
  "words_of (b0 # b1 # b2 # b3 # bs) = be32 b0 b1 b2 b3 # words_of bs"
| "words_of bs = []"

definition compress :: "sha_state \<Rightarrow> byte list \<Rightarrow> sha_state" where
  "compress hs block = add_state hs (fold sha_round (zip K256 (schedule (words_of block))) hs)"

definition be64 :: "nat \<Rightarrow> byte list" where
  "be64 n = [of_nat (n div 2 ^ 56), of_nat (n div 2 ^ 48), of_nat (n div 2 ^ 40),
             of_nat (n div 2 ^ 32), of_nat (n div 2 ^ 24), of_nat (n div 2 ^ 16),
             of_nat (n div 2 ^ 8), of_nat n]"

definition sha_pad :: "byte list \<Rightarrow> byte list" where
  "sha_pad m = m @ [0x80] @ replicate ((119 - length m mod 64) mod 64) 0 @ be64 (8 * length m)"

definition sha_blocks :: "byte list \<Rightarrow> sha_state" where
  "sha_blocks bs =
     fold (\<lambda>i hs. compress hs (take 64 (drop (64 * i) bs))) [0..<length bs div 64] H256"

definition hex32 :: "nat \<Rightarrow> jsstring" where
  "hex32 w = map (\<lambda>i. hexDigit (w div 16 ^ i mod 16)) [7, 6, 5, 4, 3, 2, 1, 0]"

fun hex_state :: "sha_state \<Rightarrow> jsstring" where
  "hex_state (a, b, c, d, e, f, g, h) =
     hex32 a @ hex32 b @ hex32 c @ hex32 d @ hex32 e @ hex32 f @ hex32 g @ hex32 h"

text \<open>\<^verbatim>\<open>createHash('sha256').update(s).digest('hex')\<close>.\<close>

definition sha256_hex :: "jsstring \<Rightarrow> jsstring" where
  "sha256_hex s = hex_state (sha_blocks (sha_pad (utf8_encode s)))"

section \<open>Content hash\<close>









section \<open>Store\<close>

text \<open>
  A row of table \<^verbatim>\<open>chunks\<close>, column by column (\<open>row_id\<close> is column \<^verbatim>\<open>id\<close>,
  \<open>row_timestamp\<close> is \<^verbatim>\<open>timestamp\<close>). The pipeline reads the records of
  \<^verbatim>\<open>getChunksByFile\<close> through their id, location, content hash and embedding, which
  \<^verbatim>\<open>mapRowToRecord\<close> copies from the row; the store is therefore modelled with the rows
  themselves. The driver hands out a BLOB as a \<^verbatim>\<open>Buffer\<close> over an \<^verbatim>\<open>ArrayBuffer\<close> of
  its own, so that \<^verbatim>\<open>embedding.buffer\<close> holds exactly the stored bytes.
\<close>

record ChunkRow =
  row_id :: nat
  file_path :: jsstring
  file_hash :: jsstring
  resource_name :: jsstring
  resource_type :: jsstring
  chunk_type :: jsstring
  chunk_index :: int
  start_line :: int
  end_line :: int
  embedding :: "byte list"
  parent_chunk_id :: "nat option"
  row_timestamp :: int
  content_hash :: jsstring
  semantic_type :: jsstring
  semantic_intent :: jsstring
  context_json :: jsstring
  sequence_key :: "jsstring option"
  is_sequence_definition :: bool
  referenced_sequences :: "jsstring option"

record FtsEntry =
  fts_chunk_id :: nat
  embedding_text :: jsstring

record SequenceReference =
  ref_id :: nat
  caller_chunk_id :: nat
  callee_chunk_id :: nat
  ref_sequence_key :: jsstring
  ref_timestamp :: int

text \<open>
  The database: the three tables in row order and, for the two \<^verbatim>\<open>AUTOINCREMENT\<close> keys,
  the largest row id ever used.
\<close>

record SQLiteDB =
  chunks :: "ChunkRow list"
  chunks_fts :: "FtsEntry list"
  sequence_references :: "SequenceReference list"
  chunks_seq :: nat
  references_seq :: nat

definition emptyDB :: SQLiteDB where
  "emptyDB = \<lparr> chunks = [], chunks_fts = [], sequence_references = [],
               chunks_seq = 0, references_seq = 0 \<rparr>"

text \<open>The columns of \<^verbatim>\<open>idx_unique_chunk\<close>.\<close>

definition uniqueKey :: "ChunkRow \<Rightarrow> jsstring \<times> int \<times> int \<times> int" where
  "uniqueKey r = (file_path r, chunk_index r, start_line r, end_line r)"

definition nextRowid :: "nat \<Rightarrow> nat list \<Rightarrow> nat" where
  "nextRowid seq ids = Suc (fold max ids seq)"

subsection \<open>FTS helpers\<close>

definition insertFts :: "SQLiteDB \<Rightarrow> nat \<Rightarrow> jsstring \<Rightarrow> SQLiteDB" where
  "insertFts db chunkId embeddingText =
     db\<lparr> chunks_fts := chunks_fts db @ [\<lparr> fts_chunk_id = chunkId, embedding_text = embeddingText \<rparr>] \<rparr>"

definition deleteFts :: "SQLiteDB \<Rightarrow> nat \<Rightarrow> SQLiteDB" where
  "deleteFts db chunkId = db\<lparr> chunks_fts := filter (\<lambda>f. fts_chunk_id f \<noteq> chunkId) (chunks_fts db) \<rparr>"

definition updateFts :: "SQLiteDB \<Rightarrow> nat \<Rightarrow> jsstring \<Rightarrow> SQLiteDB" where
  "updateFts db chunkId embeddingText = insertFts (deleteFts db chunkId) chunkId embeddingText"

subsection \<open>Chunk CRUD\<close>

text \<open>\<^verbatim>\<open>metadata.sequenceKey || null\<close>: an empty string is stored as NULL too.\<close>

definition orNull :: "jsstring option \<Rightarrow> jsstring option" where
  "orNull s = (case s of None \<Rightarrow> None | Some t \<Rightarrow> if t = [] then None else Some t)"

text \<open>The values bound by both statements, on top of the row \<open>r\<close> that supplies id and file path.\<close>

definition boundColumns :: "ChunkRow \<Rightarrow> ChunkMetadata \<Rightarrow> float32 list \<Rightarrow> ChunkRow" where
  "boundColumns r metadata emb =
     r\<lparr> file_hash := fileHash metadata,
        resource_name := resourceName metadata,
        resource_type := resourceType metadata,
        chunk_type := chunkType metadata,
        chunk_index := chunkIndex metadata,
        start_line := startLine metadata,
        end_line := endLine metadata,
        parent_chunk_id := parentChunkId metadata,
        embedding := float32ArrayBuffer emb,
        row_timestamp := timestamp metadata,
        content_hash := contentHash metadata,
        semantic_type := semanticType metadata,
        semantic_intent := semanticIntent metadata,
        context_json := (case stringify (context' metadata) of None \<Rightarrow> [] | Some s \<Rightarrow> s),
        sequence_key := orNull (sequenceKey metadata),
        is_sequence_definition := isSequenceDefinition metadata,
        referenced_sequences := map_option stringifyStrings (referencedSequences metadata) \<rparr>"

definition blankRow :: "nat \<Rightarrow> jsstring \<Rightarrow> ChunkRow" where
  "blankRow i path =
     \<lparr> row_id = i, file_path = path, file_hash = [], resource_name = [], resource_type = [],
       chunk_type = [], chunk_index = 0, start_line = 0, end_line = 0, embedding = [],
       parent_chunk_id = None, row_timestamp = 0, content_hash = [], semantic_type = [],
       semantic_intent = [], context_json = [], sequence_key = None,
       is_sequence_definition = False, referenced_sequences = None \<rparr>"

text \<open>
  \<^verbatim>\<open>insertChunk\<close>. The statement throws when the new row would repeat the unique key of a
  row; the table is then as before. The FTS row is written only for a truthy text: not for
  \<^verbatim>\<open>undefined\<close>, and not for the empty string.
\<close>

definition insertChunk ::
    "SQLiteDB \<Rightarrow> ChunkMetadata \<Rightarrow> float32 list \<Rightarrow> jsstring option \<Rightarrow> js_error + SQLiteDB \<times> nat" where
  "insertChunk db metadata emb embeddingText =
     (let i = nextRowid (chunks_seq db) (map row_id (chunks db));
          row = boundColumns (blankRow i (filePath metadata)) metadata emb
      in if list_ex (\<lambda>r. uniqueKey r = uniqueKey row) (chunks db) then Inl SqliteConstraint
         else (let db1 = db\<lparr> chunks := chunks db @ [row], chunks_seq := i \<rparr>
               in case embeddingText of
                    None \<Rightarrow> Inr (db1, i)
                  | Some t \<Rightarrow> if t = [] then Inr (db1, i) else Inr (insertFts db1 i t, i)))"

text \<open>
  \<^verbatim>\<open>updateChunk\<close>. The \<^verbatim>\<open>UPDATE\<close> changes the row with the given id, if there is one,
  and throws when the row would take the unique key of another row. The FTS row is then
  replaced, again only for a truthy text, whether or not a row had the id.
\<close>

definition updateChunk ::
    "SQLiteDB \<Rightarrow> nat \<Rightarrow> ChunkMetadata \<Rightarrow> float32 list \<Rightarrow> jsstring option \<Rightarrow> js_error + SQLiteDB" where
  "updateChunk db i metadata emb embeddingText =
     (if list_ex (\<lambda>old. row_id old = i
            \<and> list_ex (\<lambda>r. row_id r \<noteq> i \<and> uniqueKey r = uniqueKey (boundColumns old metadata emb))
                 (chunks db)) (chunks db)
      then Inl SqliteConstraint
      else (let db1 = db\<lparr> chunks := map (\<lambda>r. if row_id r = i then boundColumns r metadata emb else r)
                                    (chunks db) \<rparr>
            in case embeddingText of
                 None \<Rightarrow> Inr db1
               | Some t \<Rightarrow> if t = [] then Inr db1 else Inr (updateFts db1 i t)))"

definition getChunksByFile :: "SQLiteDB \<Rightarrow> jsstring \<Rightarrow> ChunkRow list" where
  "getChunksByFile db path = filter (\<lambda>r. file_path r = path) (chunks db)"

definition getAllChunks :: "SQLiteDB \<Rightarrow> ChunkRow list" where
  "getAllChunks db = chunks db"

text \<open>
  \<^verbatim>\<open>s.split(':', 2)[1]\<close> for a string with a colon: what stands between the first colon
  and the second one (or the end).
\<close>

definition afterColon :: "jsstring \<Rightarrow> jsstring" where
  "afterColon s = takeWhile (\<lambda>c. c \<noteq> 0x3A) (drop 1 (dropWhile (\<lambda>c. c \<noteq> 0x3A) s))"

definition referenceName :: "jsstring \<Rightarrow> jsstring" where
  "referenceName artifactRef = (if 0x3A \<in> set artifactRef then afterColon artifactRef else artifactRef)"

definition getSequenceDefinition :: "SQLiteDB \<Rightarrow> jsstring \<Rightarrow> ChunkRow option" where
  "getSequenceDefinition db artifactRef =
     find (\<lambda>r. sequence_key r = Some (referenceName artifactRef) \<and> is_sequence_definition r)
       (chunks db)"

text \<open>
  \<^verbatim>\<open>linkSequenceReference\<close>. The driver enforces foreign keys: the statement throws when
  one of the two chunks is missing.
\<close>

definition linkSequenceReference ::
    "SQLiteDB \<Rightarrow> nat \<Rightarrow> nat \<Rightarrow> jsstring \<Rightarrow> int \<Rightarrow> js_error + SQLiteDB" where
  "linkSequenceReference db callerChunkId calleeChunkId key now =
     (if callerChunkId \<in> set (map row_id (chunks db)) \<and> calleeChunkId \<in> set (map row_id (chunks db))
      then (let i = nextRowid (references_seq db) (map ref_id (sequence_references db))
            in Inr (db\<lparr> sequence_references := sequence_references db @
                        [\<lparr> ref_id = i, caller_chunk_id = callerChunkId,
                           callee_chunk_id = calleeChunkId, ref_sequence_key = key,
                           ref_timestamp = now \<rparr>],
                      references_seq := i \<rparr>))
      else Inl SqliteConstraint)"

text \<open>Deleting chunks takes the references from and to them along (\<^verbatim>\<open>ON DELETE CASCADE\<close>).\<close>

definition deleteRows :: "SQLiteDB \<Rightarrow> (ChunkRow \<Rightarrow> bool) \<Rightarrow> SQLiteDB" where
  "deleteRows db gone =
     db\<lparr> chunks := filter (\<lambda>r. \<not> gone r) (chunks db),
         sequence_references :=
           filter (\<lambda>s. caller_chunk_id s \<notin> set (map row_id (filter gone (chunks db)))
                     \<and> callee_chunk_id s \<notin> set (map row_id (filter gone (chunks db))))
             (sequence_references db) \<rparr>"



subsection \<open>Sequences of write operations\<close>








definition sampleMetadata :: "jsstring \<Rightarrow> int \<Rightarrow> int \<Rightarrow> int \<Rightarrow> jsstring \<Rightarrow> ChunkMetadata" where
  "sampleMetadata path n s e h =
     \<lparr> filePath = path, fileHash = js ''f1'', resourceName = js ''r'', resourceType = js ''api'',
       chunkType = js ''log'', chunkIndex = n, startLine = s, endLine = e, parentChunkId = None,
       timestamp = 0, contentHash = h, semanticType = js ''mediator'',
       semanticIntent = js ''logging'', context' = JObject [], sequenceKey = None,
       isSequenceDefinition = False, referencedSequences = None \<rparr>"

section \<open>Properties of the search engine\<close>

subsection \<open>Adaptive K\<close>

lemma queryWords_example:
  "queryWords (js ''  find  the api '') = [js ''find'', js ''the'', js ''api'']"
  by (simp add: queryWords_def splitWhitespace_def js_def isWhiteSpace_def)

text \<open>
  Claim C2, as stated, gives \<open>effective_k = 8\<close> for every query of at most two words. The
  code takes the minimum of the requested number and 8: one word and \<open>top_k = 3\<close> give 3.
\<close>

theorem adaptiveTopK_short_query_counterexample:
  "length (queryWords (js ''login'')) \<le> 2
   \<and> effectiveK (js ''login'') (Some 3) = 3
   \<and> effectiveK (js ''login'') (Some 3) \<noteq> 8"
  by (simp add: effectiveK_def adaptiveTopK_def topK_of_def MAX_TOP_K_def queryWords_def
      splitWhitespace_def js_def isWhiteSpace_def)

text \<open>
  Claim C2, amended: with \<open>requested_k\<close> the requested \<open>top_k\<close> (10 when absent) capped at
  50, the effective count is \<open>min requested_k 8\<close> for a query of at most two words,
  \<open>requested_k\<close> for at most five words, and \<open>min (requested_k + 5) 50\<close> otherwise.
\<close>

theorem effectiveK_cases:
  "effectiveK query top_k =
     (let n = length (queryWords query);
          requested_k = min (case top_k of None \<Rightarrow> 10 | Some t \<Rightarrow> t) 50
      in if n \<le> 2 then min requested_k 8
         else if n \<le> 5 then requested_k
         else min (requested_k + 5) 50)"
  by (cases top_k)
     (simp_all add: effectiveK_def adaptiveTopK_def topK_of_def MAX_TOP_K_def DEFAULT_TOP_K_def Let_def)

theorem effectiveK_cases_witness:
  "effectiveK (js ''login'') None = 8
   \<and> effectiveK (js ''payment error handling sequence'') (Some 20) = 20
   \<and> effectiveK (js ''where is the hotel booking POST endpoint'') (Some 48) = 50"
  using effectiveK_cases [of "js ''login''" None]
    effectiveK_cases [of "js ''payment error handling sequence''" "Some 20"]
    effectiveK_cases [of "js ''where is the hotel booking POST endpoint''" "Some 48"]
  by (simp add: queryWords_def splitWhitespace_def js_def isWhiteSpace_def)

subsection \<open>MMR reranking\<close>

text \<open>
  Claim C10: a candidate list no longer than \<open>k\<close> is returned as it is, in the order it
  came in (descending hybrid score, from the sort before), without any selection step.
\<close>

theorem mmrRerank_short_list:
  "int (length candidates) \<le> k \<Longrightarrow> mmrRerank candidates queryEmbedding k lambda = Inr candidates"
  by (simp add: mmrRerank_def)

theorem mmrRerank_short_list_witness:
  "int (length [sampleScored (js ''/p/a.xml'') 1 1 5 0.9, sampleScored (js ''/p/b.xml'') 2 1 5 0.4]) \<le> 8
   \<and> mmrRerank [sampleScored (js ''/p/a.xml'') 1 1 5 0.9, sampleScored (js ''/p/b.xml'') 2 1 5 0.4]
         [] 8 MMR_LAMBDA
      = Inr [sampleScored (js ''/p/a.xml'') 1 1 5 0.9, sampleScored (js ''/p/b.xml'') 2 1 5 0.4]"
  using mmrRerank_short_list [of "[sampleScored (js ''/p/a.xml'') 1 1 5 0.9,
      sampleScored (js ''/p/b.xml'') 2 1 5 0.4]" 8 "[]" MMR_LAMBDA]
  by simp

subsection \<open>Overlap deduplication\<close>

lemmas dedup_eval = deduplicateOverlapping_def conflicts_def overlapsSignificantly_def
  overlapLines_def minSpan_def OVERLAP_THRESHOLD_def sampleScored_def sampleEmbedded_def
  sampleChunk_def js_def Let_def

lemma float32_value_one: "float32_value 0x3F800000 = 1"
  by (simp add: float32_value_def Let_def bit_iff_odd drop_bit_eq_div take_bit_eq_mod powr_minus)

lemma float32_value_zero: "float32_value 0 = 0"
  by (simp add: float32_value_def Let_def)

lemma newFloat32Array_unit_vectors:
  "newFloat32Array (float32ArrayBuffer [0x3F800000, 0]) = Inr [0x3F800000, 0]"
  "newFloat32Array (float32ArrayBuffer [0, 0x3F800000]) = Inr [0, 0x3F800000]"
  by (simp_all add: newFloat32Array_def float32ArrayBuffer_def float32_bytes_def float32_of_bytes_def)

lemma cosineSimilarity_unit_vectors:
  "cosineSimilarity [0x3F800000, 0] [0x3F800000, 0] = Some 1"
  "cosineSimilarity [0x3F800000, 0] [0, 0x3F800000] = Some 0"
  "cosineSimilarity [0, 0x3F800000] [0x3F800000, 0] = Some 0"
  "cosineSimilarity [0, 0x3F800000] [0, 0x3F800000] = Some 1"
  by (simp_all add: cosineSimilarity_def float32_value_one float32_value_zero)

lemma sampleEmbedded_fields:
  "ChunkRecord.embedding (chunk (sampleEmbedded path n s e sem bm v)) = float32ArrayBuffer v"
  "hybridScore (sampleEmbedded path n s e sem bm v) = 0.85 * sem + 0.15 * bm"
  by (simp_all add: sampleEmbedded_def)

text \<open>
  A second input on which the function returns the lower-scored member of an overlapping
  pair: three candidates of one file in descending score order with lines 1-10, 5-14 and
  9-18. The second is dropped against the first; the third overlaps the second by 6 of 10
  lines and is returned although the second scores higher.
\<close>

lemma deduplicateOverlapping_chain:
  "conflicts (sampleScored (js ''/p/a.xml'') 2 5 14 0.8) (sampleScored (js ''/p/a.xml'') 3 9 18 0.7)
   \<and> hybridScore (sampleScored (js ''/p/a.xml'') 2 5 14 0.8)
       > hybridScore (sampleScored (js ''/p/a.xml'') 3 9 18 0.7)
   \<and> deduplicateOverlapping
        [sampleScored (js ''/p/a.xml'') 1 1 10 0.9, sampleScored (js ''/p/a.xml'') 2 5 14 0.8,
         sampleScored (js ''/p/a.xml'') 3 9 18 0.7]
     = [sampleScored (js ''/p/a.xml'') 1 1 10 0.9, sampleScored (js ''/p/a.xml'') 3 9 18 0.7]"
  by (simp add: dedup_eval)

text \<open>
  Claim C8 (and the comment above \<^verbatim>\<open>deduplicateOverlapping\<close>: keep only the higher-scored
  one) against the code, which never reads a score: it keeps the result that comes first.
  The input of the function is the output of \<^verbatim>\<open>mmrRerank\<close>, which is not in score order.
  For the query embedding (0.8, 0.6) and \<open>k = 3\<close>, the four candidates below are in
  descending hybrid score (0.83, 0.80, 0.68, 0.645). The reranker selects the first, then the
  fourth (its embedding is orthogonal to the first), then the second. The second and the
  fourth are of one file and share 8 of their 10 lines each: the deduplication drops the
  second, with score 0.80, and returns the fourth, with score 0.645.
\<close>

theorem deduplicateOverlapping_keeps_first_not_best:
  "mmrRerank
     [sampleEmbedded (js ''/p/x.xml'') 1 1 10 0.8 1 [0x3F800000, 0],
      sampleEmbedded (js ''/p/y.xml'') 2 1 10 0.8 0.8 [0x3F800000, 0],
      sampleEmbedded (js ''/p/z.xml'') 3 1 10 0.8 0 [0x3F800000, 0],
      sampleEmbedded (js ''/p/y.xml'') 4 3 12 0.6 0.9 [0, 0x3F800000]]
     [0x3F4CCCCD, 0x3F19999A] 3 MMR_LAMBDA
   = Inr [sampleEmbedded (js ''/p/x.xml'') 1 1 10 0.8 1 [0x3F800000, 0],
          sampleEmbedded (js ''/p/y.xml'') 4 3 12 0.6 0.9 [0, 0x3F800000],
          sampleEmbedded (js ''/p/y.xml'') 2 1 10 0.8 0.8 [0x3F800000, 0]]
   \<and> deduplicateOverlapping
        [sampleEmbedded (js ''/p/x.xml'') 1 1 10 0.8 1 [0x3F800000, 0],
         sampleEmbedded (js ''/p/y.xml'') 4 3 12 0.6 0.9 [0, 0x3F800000],
         sampleEmbedded (js ''/p/y.xml'') 2 1 10 0.8 0.8 [0x3F800000, 0]]
      = [sampleEmbedded (js ''/p/x.xml'') 1 1 10 0.8 1 [0x3F800000, 0],
         sampleEmbedded (js ''/p/y.xml'') 4 3 12 0.6 0.9 [0, 0x3F800000]]
   \<and> conflicts (sampleEmbedded (js ''/p/y.xml'') 2 1 10 0.8 0.8 [0x3F800000, 0])
        (sampleEmbedded (js ''/p/y.xml'') 4 3 12 0.6 0.9 [0, 0x3F800000])
   \<and> hybridScore (sampleEmbedded (js ''/p/y.xml'') 4 3 12 0.6 0.9 [0, 0x3F800000])
       < hybridScore (sampleEmbedded (js ''/p/y.xml'') 2 1 10 0.8 0.8 [0x3F800000, 0])"
proof -
  have "mmrRerank
     [sampleEmbedded (js ''/p/x.xml'') 1 1 10 0.8 1 [0x3F800000, 0],
      sampleEmbedded (js ''/p/y.xml'') 2 1 10 0.8 0.8 [0x3F800000, 0],
      sampleEmbedded (js ''/p/z.xml'') 3 1 10 0.8 0 [0x3F800000, 0],
      sampleEmbedded (js ''/p/y.xml'') 4 3 12 0.6 0.9 [0, 0x3F800000]]
     [0x3F4CCCCD, 0x3F19999A] 3 MMR_LAMBDA
   = Inr [sampleEmbedded (js ''/p/x.xml'') 1 1 10 0.8 1 [0x3F800000, 0],
          sampleEmbedded (js ''/p/y.xml'') 4 3 12 0.6 0.9 [0, 0x3F800000],
          sampleEmbedded (js ''/p/y.xml'') 2 1 10 0.8 0.8 [0x3F800000, 0]]"
    by (simp add: mmrRerank_def MMR_LAMBDA_def eval_nat_numeral sampleEmbedded_fields
        newFloat32Array_unit_vectors cosineSimilarity_unit_vectors)
  moreover have "deduplicateOverlapping
        [sampleEmbedded (js ''/p/x.xml'') 1 1 10 0.8 1 [0x3F800000, 0],
         sampleEmbedded (js ''/p/y.xml'') 4 3 12 0.6 0.9 [0, 0x3F800000],
         sampleEmbedded (js ''/p/y.xml'') 2 1 10 0.8 0.8 [0x3F800000, 0]]
      = [sampleEmbedded (js ''/p/x.xml'') 1 1 10 0.8 1 [0x3F800000, 0],
         sampleEmbedded (js ''/p/y.xml'') 4 3 12 0.6 0.9 [0, 0x3F800000]]
   \<and> conflicts (sampleEmbedded (js ''/p/y.xml'') 2 1 10 0.8 0.8 [0x3F800000, 0])
        (sampleEmbedded (js ''/p/y.xml'') 4 3 12 0.6 0.9 [0, 0x3F800000])
   \<and> hybridScore (sampleEmbedded (js ''/p/y.xml'') 4 3 12 0.6 0.9 [0, 0x3F800000])
       < hybridScore (sampleEmbedded (js ''/p/y.xml'') 2 1 10 0.8 0.8 [0x3F800000, 0])"
    by (simp add: dedup_eval)
  ultimately show ?thesis by (rule conjI)
qed

section \<open>Properties of the store\<close>

subsection \<open>Embedding bytes\<close>

lemma float32_of_bytes_bytes:
  "float32_of_bytes (ucast w) (ucast (drop_bit 8 w)) (ucast (drop_bit 16 w)) (ucast (drop_bit 24 w)) = w"
  unfolding float32_of_bytes_def
proof (rule bit_word_eqI)
  fix n assume "n < LENGTH(32)"
  then show "bit (ucast (ucast w :: byte) OR push_bit 8 (ucast (ucast (drop_bit 8 w) :: byte))
      OR push_bit 16 (ucast (ucast (drop_bit 16 w) :: byte)) OR push_bit 24 (ucast (ucast (drop_bit 24 w) :: byte)) :: float32) n
    = bit w n"
    by (cases "n < 8"; cases "n < 16"; cases "n < 24") (auto simp add: bit_simps)
qed

lemma float32_elements_buffer: "float32_elements (float32ArrayBuffer v) = v"
  by (induction v) (simp_all add: float32ArrayBuffer_def float32_bytes_def float32_of_bytes_bytes)

lemma length_float32ArrayBuffer: "length (float32ArrayBuffer v) = 4 * length v"
  by (induction v) (simp_all add: float32ArrayBuffer_def float32_bytes_def)

lemma newFloat32Array_buffer: "newFloat32Array (float32ArrayBuffer v) = Inr v"
  by (simp add: newFloat32Array_def length_float32ArrayBuffer float32_elements_buffer)


lemma row_id_boundColumns [simp]: "row_id (boundColumns r m e) = row_id r"
  by (simp add: boundColumns_def)
lemma file_path_boundColumns [simp]: "file_path (boundColumns r m e) = file_path r"
  by (simp add: boundColumns_def)
lemma embedding_boundColumns [simp]: "embedding (boundColumns r m e) = float32ArrayBuffer e"
  by (simp add: boundColumns_def)

lemma chunks_insertFts [simp]: "chunks (insertFts db i t) = chunks db"
  by (simp add: insertFts_def)
lemma chunks_deleteFts [simp]: "chunks (deleteFts db i) = chunks db"
  by (simp add: deleteFts_def)
lemma chunks_updateFts [simp]: "chunks (updateFts db i t) = chunks db"
  by (simp add: updateFts_def)

lemma insertChunk_chunks:
  assumes "insertChunk db md v t = Inr (db', i)"
  shows "chunks db' = chunks db @ [boundColumns (blankRow i (ChunkMetadata.filePath md)) md v]"
    and "i = nextRowid (chunks_seq db) (map row_id (chunks db))"
  using assms unfolding insertChunk_def Let_def
  by (simp_all split: if_splits option.splits, auto)

lemma updateChunk_chunks:
  assumes "updateChunk db i md v t = Inr db'"
  shows "chunks db' = map (\<lambda>r. if row_id r = i then boundColumns r md v else r) (chunks db)"
  using assms unfolding updateChunk_def Let_def
  by (simp split: if_splits option.splits, auto)

lemma row_id_blankRow [simp]: "row_id (blankRow i p) = i"
  by (simp add: blankRow_def)
lemma file_path_blankRow [simp]: "file_path (blankRow i p) = p"
  by (simp add: blankRow_def)

lemma insertChunk_row:
  assumes "insertChunk db md v t = Inr (db', i)"
  shows "\<exists>r\<in>set (chunks db'). row_id r = i \<and> file_path r = ChunkMetadata.filePath md \<and> embedding r = float32ArrayBuffer v"
proof -
  have "boundColumns (blankRow i (ChunkMetadata.filePath md)) md v \<in> set (chunks db')"
    unfolding insertChunk_chunks(1) [OF assms] by simp
  then show ?thesis
    by (rule bexI [rotated]) simp
qed

lemma updateChunk_row:
  assumes "updateChunk db i md v t = Inr db'" "r \<in> set (chunks db')" "row_id r = i"
  shows "embedding r = float32ArrayBuffer v"
proof -
  from assms(2) obtain r0 where r0: "r0 \<in> set (chunks db)" "r = (if row_id r0 = i then boundColumns r0 md v else r0)"
    unfolding updateChunk_chunks [OF assms(1)] by auto
  show ?thesis
  proof (cases "row_id r0 = i")
    case True
    with r0 show ?thesis by simp
  next
    case False
    with r0 assms(3) show ?thesis by simp
  qed
qed

text \<open>
  Claim C4: a vector written by \<^verbatim>\<open>insertChunk\<close> or \<^verbatim>\<open>updateChunk\<close> is stored as the bytes
  of its buffer, and \<^verbatim>\<open>new Float32Array(record.embedding.buffer)\<close> gives the vector back,
  for a record read by \<^verbatim>\<open>getChunksByFile\<close> (the pipeline's reuse path) as for one read by
  \<^verbatim>\<open>getAllChunks\<close> (the dense scoring of the search).
\<close>

theorem embedding_roundtrip:
  "newFloat32Array (float32ArrayBuffer v) = Inr v
   \<and> (insertChunk db metadata v t = Inr (db', i) \<longrightarrow>
        (\<exists>r\<in>set (getChunksByFile db' (ChunkMetadata.filePath metadata)). row_id r = i \<and> newFloat32Array (embedding r) = Inr v)
        \<and> (\<exists>r\<in>set (getAllChunks db'). row_id r = i \<and> newFloat32Array (embedding r) = Inr v))
   \<and> (updateChunk db i metadata v t = Inr db' \<longrightarrow>
        (\<forall>r\<in>set (getAllChunks db'). row_id r = i \<longrightarrow> newFloat32Array (embedding r) = Inr v))"
proof (intro conjI impI ballI)
  show "newFloat32Array (float32ArrayBuffer v) = Inr v" by (rule newFloat32Array_buffer)
next
  assume a: "insertChunk db metadata v t = Inr (db', i)"
  from insertChunk_row [OF a] obtain r where r: "r \<in> set (chunks db')" "row_id r = i"
    "file_path r = ChunkMetadata.filePath metadata" "embedding r = float32ArrayBuffer v" by blast
  from r have "r \<in> set (getChunksByFile db' (ChunkMetadata.filePath metadata))"
    by (simp add: getChunksByFile_def)
  moreover have "row_id r = i \<and> newFloat32Array (embedding r) = Inr v"
    using r by (simp add: newFloat32Array_buffer)
  ultimately show "\<exists>r\<in>set (getChunksByFile db' (ChunkMetadata.filePath metadata)). row_id r = i \<and> newFloat32Array (embedding r) = Inr v"
    by (rule bexI [rotated])
  from r have "r \<in> set (getAllChunks db')"
    by (simp add: getAllChunks_def)
  moreover have "row_id r = i \<and> newFloat32Array (embedding r) = Inr v"
    using r by (simp add: newFloat32Array_buffer)
  ultimately show "\<exists>r\<in>set (getAllChunks db'). row_id r = i \<and> newFloat32Array (embedding r) = Inr v"
    by (rule bexI [rotated])
next
  fix r
  assume a: "updateChunk db i metadata v t = Inr db'" and r: "r \<in> set (getAllChunks db')" "row_id r = i"
  from r(1) have "r \<in> set (chunks db')" by (simp add: getAllChunks_def)
  from updateChunk_row [OF a this r(2)] show "newFloat32Array (embedding r) = Inr v"
    by (simp add: newFloat32Array_buffer)
qed

subsection \<open>FTS mirror\<close>





lemma chunks_fts_insertFts [simp]:
  "chunks_fts (insertFts db i t) = chunks_fts db @ [\<lparr> fts_chunk_id = i, embedding_text = t \<rparr>]"
  by (simp add: insertFts_def)
lemma chunks_fts_deleteFts [simp]:
  "chunks_fts (deleteFts db i) = filter (\<lambda>f. fts_chunk_id f \<noteq> i) (chunks_fts db)"
  by (simp add: deleteFts_def)
lemma chunks_fts_updateFts [simp]:
  "chunks_fts (updateFts db i t) = filter (\<lambda>f. fts_chunk_id f \<noteq> i) (chunks_fts db) @ [\<lparr> fts_chunk_id = i, embedding_text = t \<rparr>]"
  by (simp add: updateFts_def)





lemma chunks_deleteRows [simp]: "chunks (deleteRows db gone) = filter (\<lambda>r. \<not> gone r) (chunks db)"
  by (simp add: deleteRows_def)
lemma chunks_fts_deleteRows [simp]: "chunks_fts (deleteRows db gone) = chunks_fts db"
  by (simp add: deleteRows_def)











theorem embedding_roundtrip_witness:
  "insertChunk emptyDB (sampleMetadata (js ''/p/a.xml'') 0 1 3 (js ''c1'')) [0x3F800000, 0xBF000000] (Some (js ''Api: a log''))
     = Inr (insertFts (emptyDB\<lparr> chunks := [boundColumns (blankRow 1 (js ''/p/a.xml''))
               (sampleMetadata (js ''/p/a.xml'') 0 1 3 (js ''c1'')) [0x3F800000, 0xBF000000]], chunks_seq := 1 \<rparr>)
             1 (js ''Api: a log''), 1)
   \<and> embedding (boundColumns (blankRow 1 (js ''/p/a.xml''))
               (sampleMetadata (js ''/p/a.xml'') 0 1 3 (js ''c1'')) [0x3F800000, 0xBF000000])
       = [0x00, 0x00, 0x80, 0x3F, 0x00, 0x00, 0x00, 0xBF]
   \<and> newFloat32Array [0x00, 0x00, 0x80, 0x3F, 0x00, 0x00, 0x00, 0xBF] = Inr [0x3F800000, 0xBF000000]"
proof -
  have a: "insertChunk emptyDB (sampleMetadata (js ''/p/a.xml'') 0 1 3 (js ''c1'')) [0x3F800000, 0xBF000000] (Some (js ''Api: a log''))
     = Inr (insertFts (emptyDB\<lparr> chunks := [boundColumns (blankRow 1 (js ''/p/a.xml''))
               (sampleMetadata (js ''/p/a.xml'') 0 1 3 (js ''c1'')) [0x3F800000, 0xBF000000]], chunks_seq := 1 \<rparr>)
             1 (js ''Api: a log''), 1)"
    by (simp add: insertChunk_def nextRowid_def emptyDB_def sampleMetadata_def js_def)
  have b: "float32ArrayBuffer [0x3F800000, 0xBF000000] = [0x00, 0x00, 0x80, 0x3F, 0x00, 0x00, 0x00, 0xBF]"
    by (simp add: float32ArrayBuffer_def float32_bytes_def)
  from embedding_roundtrip [of "[0x3F800000, 0xBF000000]"] have "newFloat32Array (float32ArrayBuffer [0x3F800000, 0xBF000000]) = Inr [0x3F800000, 0xBF000000]"
    by (rule conjunct1)
  with a b show ?thesis by simp
qed


subsection \<open>BM25 normalisation\<close>










section \<open>Properties of the content hash\<close>

lemma replicate_numeral: "replicate (numeral k) x = x # replicate (pred_numeral k) x"
  by (simp add: numeral_eq_Suc)


lemma sha_pad_eval:
  "length m = n \<Longrightarrow> sha_pad m = m @ [0x80] @ replicate ((119 - n mod 64) mod 64) 0 @ be64 (8 * n)"
  by (simp add: sha_pad_def)

lemma sha_blocks_one: "length bs = 64 \<Longrightarrow> sha_blocks bs = compress H256 (take 64 bs)"
  by (simp add: sha_blocks_def)


lemmas sha_eval = compress_def K256_def bsig0_def bsig1_def Ch_def Maj_def rotr_def shr_def add32_def
  schedule_def schedule_step_def ssig0_def ssig1_def be32_def


text \<open>The digest of the standard's first test message.\<close>

lemma sha_abc_block:
  "compress H256 (sha_pad [0x61, 0x62, 0x63]) = (0xba7816bf, 0x8f01cfea, 0x414140de, 0x5dae2223, 0xb00361a3, 0x96177a9c, 0xb410ff61, 0xf20015ad)"
  by (simp add: sha_eval H256_def sha_pad_eval [of _ 3] replicate_numeral be64_def)

lemma sha256_abc:
  "sha256_hex (js ''abc'') = js ''ba7816bf8f01cfea414140de5dae2223b00361a396177a9cb410ff61f20015ad''"
proof -
  have b: "utf8_encode (js ''abc'') = [0x61, 0x62, 0x63]"
    by (simp add: js_def utf8_unit_def isHighSurrogate_def isLowSurrogate_def)
  have l: "length (sha_pad [0x61, 0x62, 0x63]) = 64"
    by (simp add: sha_pad_def be64_def)
  have "sha_blocks (sha_pad [0x61, 0x62, 0x63]) = (0xba7816bf, 0x8f01cfea, 0x414140de, 0x5dae2223, 0xb00361a3, 0x96177a9c, 0xb410ff61, 0xf20015ad)"
    using sha_blocks_one [OF l] sha_abc_block l by simp
  then show ?thesis
    unfolding sha256_hex_def b by (simp add: hex32_def hexDigit_def js_def)
qed












end
